theory Spec2Isabelle
  imports Main "HOL-Library.Char_ord" "HOL-Library.List_Lexorder" "HOL-Library.Multiset"
begin

section \<open>Strings and errors\<close>

text \<open>
  Python strings are modelled by \<open>string\<close>. The character predicates and case
  mappings below are the ASCII part of \<open>str.isupper\<close>, \<open>str.isalpha\<close>,
  \<open>str.isspace\<close>, \<open>str.lower\<close> and \<open>str.upper\<close>; characters outside ASCII are
  left unchanged and belong to no class.
\<close>

definition isupper :: "char \<Rightarrow> bool" where
  "isupper c = (CHR ''A'' \<le> c \<and> c \<le> CHR ''Z'')"

definition islower :: "char \<Rightarrow> bool" where
  "islower c = (CHR ''a'' \<le> c \<and> c \<le> CHR ''z'')"

definition isalpha :: "char \<Rightarrow> bool" where
  "isalpha c = (isupper c \<or> islower c)"

definition isspace :: "char \<Rightarrow> bool" where
  "isspace c = (c = CHR '' '' \<or> (char_of (9::nat) \<le> c \<and> c \<le> char_of (13::nat))
     \<or> (char_of (28::nat) \<le> c \<and> c \<le> char_of (31::nat)))"

definition lower_chr :: "char \<Rightarrow> char" where
  "lower_chr c = (if isupper c then char_of (of_char c + (32::nat)) else c)"

definition upper_chr :: "char \<Rightarrow> char" where
  "upper_chr c = (if islower c then char_of (of_char c - (32::nat)) else c)"

definition lower :: "string \<Rightarrow> string" where
  "lower s = map lower_chr s"

definition strip :: "string \<Rightarrow> string" where
  "strip s = rev (dropWhile isspace (rev (dropWhile isspace s)))"

definition capitalize :: "string \<Rightarrow> string" where
  "capitalize s = (case s of [] \<Rightarrow> [] | c # cs \<Rightarrow> upper_chr c # map lower_chr cs)"

definition startswith :: "string \<Rightarrow> string \<Rightarrow> bool" where
  "startswith s pre = (take (length pre) s = pre)"

definition endswith :: "string \<Rightarrow> string \<Rightarrow> bool" where
  "endswith s suf = (length suf \<le> length s \<and> drop (length s - length suf) s = suf)"

text \<open>\<open>s.split(sep)\<close> for a one-character separator: the pieces between the separators.\<close>

fun split_chr :: "char \<Rightarrow> string \<Rightarrow> string list" where
  "split_chr sep [] = [[]]"
| "split_chr sep (c # cs) =
     (if c = sep then [] # split_chr sep cs
      else (case split_chr sep cs of
              [] \<Rightarrow> [[c]]
            | p # ps \<Rightarrow> (c # p) # ps))"

text \<open>\<open>s.split(":", 1)\<close>: one piece when there is no colon, else the text before the
  first colon and the text after it.\<close>

definition split_colon :: "string \<Rightarrow> string list" where
  "split_colon s =
     (if CHR '':'' \<in> set s
      then [takeWhile (\<lambda>c. c \<noteq> CHR '':'') s, tl (dropWhile (\<lambda>c. c \<noteq> CHR '':'') s)]
      else [s])"

text \<open>
  The exceptions the modelled code raises, as values. A \<open>ValidationError\<close> of the
  validation library carries one item per failure, in field order: \<open>Value_error\<close>
  with the field and the message of the \<open>ValueError\<close> a field validator raised, and
  \<open>Literal_error\<close> with the field, the position and the input that a \<open>Literal\<close>
  annotation refused. The errors of the operating system carry the path.
\<close>

datatype validation_item =
    Value_error string string
  | Literal_error string nat string

datatype error =
    ValueError string
  | FileNotFoundError string
  | NotADirectoryError string
  | IsADirectoryError string
  | FileExistsError string
  | AttributeError string
  | IndexError string
  | ValidationError "validation_item list"

section \<open>constants.py\<close>

definition CRUD_METHODS :: "string list" where
  "CRUD_METHODS = [''get'', ''get_or_raise'', ''list'', ''find_one'', ''create'',
     ''update'', ''delete'', ''delete_by_id'', ''exists'', ''count'']"

definition ERR_MODEL_NAME :: string where
  "ERR_MODEL_NAME = ''model name must start with a letter''"

definition ERR_IMPORT_PATH_CLASS :: string where
  "ERR_IMPORT_PATH_CLASS = ''import_path must include both module and class''"

definition ERR_INVALID_METHOD :: "string \<Rightarrow> string" where
  "ERR_INVALID_METHOD method = ''invalid method: '' @ method"

definition ERR_DUPLICATE_MODELS :: string where
  "ERR_DUPLICATE_MODELS = ''duplicate model names in configuration''"

definition ERR_CONFIG_NOT_FOUND :: "string \<Rightarrow> string" where
  "ERR_CONFIG_NOT_FOUND p = ''config not found: '' @ p"

definition ERR_MODELS_MISSING :: string where
  "ERR_MODELS_MISSING = ''invalid configuration: missing 'models'. Use 'models: all' for discovery or provide an explicit list under 'models:'.''"

definition ERR_MODELS_NONE :: string where
  "ERR_MODELS_NONE = ''no models configured. Use 'models: all' for discovery or define an explicit list under 'models:'.''"

definition ERR_MODELS_INVALID_VALUE :: string where
  "ERR_MODELS_INVALID_VALUE = ''invalid value for 'models'. Use 'all' or an explicit list of models.''"

definition ERR_MODELS_EMPTY :: string where
  "ERR_MODELS_EMPTY = ''empty 'models' list. Use 'models: all' for discovery or provide one or more models.''"

definition ERR_INVALID_CONFIGURATION :: "string \<Rightarrow> string" where
  "ERR_INVALID_CONFIGURATION err = ''invalid configuration: '' @ err"

definition ERR_MODEL_NOT_IMPORTABLE :: "string \<Rightarrow> string" where
  "ERR_MODEL_NOT_IMPORTABLE ip =
     ''could not import model: '' @ ip @ ''. Create the model or adjust 'import_path'.''"

definition ERR_UNSUPPORTED_ORM :: "string \<Rightarrow> string" where
  "ERR_UNSUPPORTED_ORM orm_name =
     ''unsupported orm: '' @ orm_name @ ''. Supported: sqlmodel, sqlalchemy''"

section \<open>config.py: the field validators of ModelConfig\<close>

definition validate_name :: "string \<Rightarrow> error + string" where
  "validate_name v =
     (case v of
        [] \<Rightarrow> Inl (ValueError ERR_MODEL_NAME)
      | c # cs \<Rightarrow> if \<not> isalpha c then Inl (ValueError ERR_MODEL_NAME) else Inr v)"

definition validate_import_path :: "string \<Rightarrow> error + string" where
  "validate_import_path v =
     (if CHR '':'' \<notin> set v then Inr v
      else (case split_colon v of
              [md, cls_name] \<Rightarrow>
                if md = [] \<or> cls_name = [] then Inl (ValueError ERR_IMPORT_PATH_CLASS)
                else Inr v
            | _ \<Rightarrow> Inr v))"

text \<open>
  The loop of \<open>validate_methods\<close> over the tokens of \<open>v\<close>: \<open>result\<close> is the list
  built so far and \<open>seen\<close> the set of tokens already in it.
\<close>

fun methods_loop :: "string list \<Rightarrow> string list \<Rightarrow> string set \<Rightarrow> string list
    \<Rightarrow> error + string list" where
  "methods_loop allowed result seen [] = Inr result"
| "methods_loop allowed result seen (m # ms) =
     (if m = ''all'' \<or> m = ''none'' then methods_loop allowed result seen ms
      else if m \<notin> set allowed then Inl (ValueError (ERR_INVALID_METHOD m))
      else if m \<in> seen then methods_loop allowed result seen ms
      else methods_loop allowed (result @ [m]) (insert m seen) ms)"

definition validate_methods :: "string list \<Rightarrow> error + string list" where
  "validate_methods v =
     (let allowed = CRUD_METHODS in
      if v = [] then Inr []
      else if ''none'' \<in> set v then Inr []
      else (case methods_loop allowed
                   (if ''all'' \<in> set v then allowed else [])
                   (if ''all'' \<in> set v then set allowed else {}) v of
              Inl e \<Rightarrow> Inl e
            | Inr result \<Rightarrow>
                if (''get_or_raise'' \<in> set result \<or> ''delete_by_id'' \<in> set result)
                   \<and> ''get'' \<notin> set result
                then Inr (''get'' # result)
                else Inr result))"

fun personalize_loop :: "string list \<Rightarrow> string set \<Rightarrow> string list \<Rightarrow> string list" where
  "personalize_loop out seen [] = out"
| "personalize_loop out seen (m # ms) =
     (if m \<in> seen then personalize_loop out seen ms
      else personalize_loop (out @ [m]) (insert m seen) ms)"

definition validate_personalize_methods :: "string list \<Rightarrow> string list" where
  "validate_personalize_methods v = personalize_loop [] {} v"


text \<open>
  The annotation \<open>CrudMethod\<close>: the twelve strings a \<open>methods\<close> entry may be.
\<close>

definition CrudMethod :: "string list" where
  "CrudMethod = [''get'', ''get_or_raise'', ''list'', ''find_one'', ''create'', ''update'',
     ''delete'', ''delete_by_id'', ''exists'', ''count'', ''all'', ''none'']"

text \<open>
  A model declaration. Constructing a \<open>ModelConfig\<close> validates every field and collects
  the failures into one \<open>ValidationError\<close>. For \<open>methods: list[CrudMethod]\<close> the
  library first checks every entry against the \<open>Literal\<close> annotation; the field
  validator \<open>validate_methods\<close> runs after that check and only when it found nothing
  to refuse. The other three validators see strings and lists of strings as they are.
\<close>

record ModelConfig =
  name :: string
  import_path :: string
  id_field :: string
  id_type :: string
  methods :: "string list"
  personalize_methods :: "string list"

definition field_errors :: "string \<Rightarrow> error + 'a \<Rightarrow> validation_item list" where
  "field_errors field r =
     (case r of
        Inl (ValueError msg) \<Rightarrow> [Value_error field msg]
      | Inl _ \<Rightarrow> [Value_error field []]
      | Inr _ \<Rightarrow> [])"

definition literal_errors :: "string list \<Rightarrow> validation_item list" where
  "literal_errors ms =
     concat (map (\<lambda>(i, m). if m \<in> set CrudMethod then [] else [Literal_error ''methods'' i m])
                 (enumerate 0 ms))"

definition ModelConfig_init :: "string \<Rightarrow> string \<Rightarrow> string \<Rightarrow> string \<Rightarrow> string list
    \<Rightarrow> string list \<Rightarrow> error + ModelConfig" where
  "ModelConfig_init nm ip idf idt ms ps =
     (let r1 = validate_name nm;
          r2 = validate_import_path ip;
          lit = literal_errors ms;
          r3 = validate_methods ms;
          errs = field_errors ''name'' r1 @ field_errors ''import_path'' r2
                 @ (if lit = [] then field_errors ''methods'' r3 else lit)
      in (case (r1, r2, r3) of
            (Inr nm', Inr ip', Inr ms') \<Rightarrow>
              if errs = []
              then Inr \<lparr>name = nm', import_path = ip', id_field = idf, id_type = idt,
                        methods = ms', personalize_methods = validate_personalize_methods ps\<rparr>
              else Inl (ValidationError errs)
          | _ \<Rightarrow> Inl (ValidationError errs)))"

record Generation =
  mode :: string
  base_filename :: string
  base_class_name :: string
  overwrite_base :: bool
  stub_only :: bool

record GenrepoConfig =
  orm :: string
  async_mode :: bool
  output_dir :: string
  models :: "ModelConfig list"
  models_dir :: "string option"
  models_package :: "string option"
  discover_all :: bool
  commit_strategy :: string
  allow_missing_models :: bool
  generation :: Generation

section \<open>config.py: load_config\<close>

text \<open>
  The document \<open>yaml.safe_load\<close> returns: null, booleans, integers, strings, lists and
  mappings with string keys (floats and dates are left out). \<open>load_config\<close> takes the
  parsed document, or \<open>None\<close> when the path does not exist, and the schema validation
  \<open>GenrepoConfig.model_validate\<close> of the validation library as a parameter, which
  returns the validated configuration or the text of its validation error.
\<close>

datatype yaml =
    YNull
  | YBool bool
  | YInt int
  | YStr string
  | YList "yaml list"
  | YMap "(string \<times> yaml) list"

fun truthy :: "yaml \<Rightarrow> bool" where
  "truthy YNull = False"
| "truthy (YBool b) = b"
| "truthy (YInt i) = (i \<noteq> 0)"
| "truthy (YStr s) = (s \<noteq> [])"
| "truthy (YList xs) = (xs \<noteq> [])"
| "truthy (YMap kvs) = (kvs \<noteq> [])"

text \<open>\<open>d.get(key)\<close>: only a mapping has the method.\<close>

definition dict_get :: "yaml \<Rightarrow> string \<Rightarrow> error + yaml" where
  "dict_get d k =
     (case d of
        YMap kvs \<Rightarrow> Inr (case map_of kvs k of None \<Rightarrow> YNull | Some v \<Rightarrow> v)
      | _ \<Rightarrow> Inl (AttributeError ''get''))"

definition dict_set :: "yaml \<Rightarrow> string \<Rightarrow> yaml \<Rightarrow> yaml" where
  "dict_set d k v =
     (case d of
        YMap kvs \<Rightarrow> YMap ((k, v) # filter (\<lambda>kv. fst kv \<noteq> k) kvs)
      | _ \<Rightarrow> d)"

definition placeholder_model :: yaml where
  "placeholder_model = YMap [(''name'', YStr ''All''), (''import_path'', YStr ''app.models''),
     (''id_field'', YStr ''id''), (''id_type'', YStr ''int''),
     (''methods'', YList [YStr ''none''])]"

text \<open>The end of \<open>load_config\<close>: schema validation, its error wrapped, and the
  discovery defaults.\<close>

definition validate_and_finish :: "(yaml \<Rightarrow> string + GenrepoConfig) \<Rightarrow> yaml \<Rightarrow> bool
    \<Rightarrow> error + GenrepoConfig" where
  "validate_and_finish model_validate data discover =
     (case model_validate data of
        Inl e \<Rightarrow> Inl (ValueError (ERR_INVALID_CONFIGURATION e))
      | Inr cfg \<Rightarrow>
          if discover then
            (let cfg1 = cfg\<lparr>discover_all := True\<rparr> in
             if models_dir cfg1 = None \<and> models_package cfg1 = None
             then Inr (cfg1\<lparr>models_dir := Some ''app/models'',
                            models_package := Some ''app.models''\<rparr>)
             else Inr cfg1)
          else Inr cfg)"

definition load_config :: "(yaml \<Rightarrow> string + GenrepoConfig) \<Rightarrow> string \<Rightarrow> yaml option
    \<Rightarrow> error + GenrepoConfig" where
  "load_config model_validate p file =
     (case file of
        None \<Rightarrow> Inl (FileNotFoundError (ERR_CONFIG_NOT_FOUND p))
      | Some data \<Rightarrow>
     (case dict_get data ''generation'' of
        Inl e \<Rightarrow> Inl e
      | Inr g \<Rightarrow>
     (case dict_get (if truthy g then g else YMap []) ''mode'' of
        Inl e \<Rightarrow> Inl e
      | Inr md \<Rightarrow>
     (case (if truthy md then md else YStr ''standalone'') of
        YStr s \<Rightarrow>
          (let gen_mode = lower (strip s) in
           (case dict_get data ''models'' of
              Inl e \<Rightarrow> Inl e
            | Inr models_field \<Rightarrow>
                if models_field = YNull \<and> gen_mode \<noteq> ''base''
                then Inl (ValueError ERR_MODELS_MISSING)
                else
                  (let data1 = (if models_field = YNull \<and> gen_mode = ''base''
                                then dict_set data ''models'' (YList [placeholder_model])
                                else data) in
                   (case models_field of
                      YStr t \<Rightarrow>
                        (let mval = lower (strip t) in
                         if mval = ''all''
                         then validate_and_finish model_validate
                                (dict_set data1 ''models'' (YList [])) True
                         else if mval = ''none'' then Inl (ValueError ERR_MODELS_NONE)
                         else Inl (ValueError ERR_MODELS_INVALID_VALUE))
                    | YList [] \<Rightarrow> Inl (ValueError ERR_MODELS_EMPTY)
                    | _ \<Rightarrow> validate_and_finish model_validate data1 False))))
      | _ \<Rightarrow> Inl (AttributeError ''strip'')))))"

section \<open>generator.py: names, templates and rendering\<close>

definition TPL_BASE_SQLMODEL_SYNC :: string where
  "TPL_BASE_SQLMODEL_SYNC = ''base_repository_sqlmodel_sync.j2''"
definition TPL_BASE_SQLMODEL_ASYNC :: string where
  "TPL_BASE_SQLMODEL_ASYNC = ''base_repository_sqlmodel_async.j2''"
definition TPL_BASE_SQLALCHEMY_SYNC :: string where
  "TPL_BASE_SQLALCHEMY_SYNC = ''base_repository_sqlalchemy_sync.j2''"
definition TPL_BASE_SQLALCHEMY_ASYNC :: string where
  "TPL_BASE_SQLALCHEMY_ASYNC = ''base_repository_sqlalchemy_async.j2''"
definition TPL_STANDALONE_SQLMODEL :: string where
  "TPL_STANDALONE_SQLMODEL = ''repository_sqlmodel.j2''"
definition TPL_STANDALONE_SQLALCHEMY :: string where
  "TPL_STANDALONE_SQLALCHEMY = ''repository_sqlalchemy.j2''"
definition TPL_USER_STUB :: string where
  "TPL_USER_STUB = ''model_repository_user_stub.j2''"
definition TPL_BASE_STUB :: string where
  "TPL_BASE_STUB = ''repository_base_stub.j2''"
definition TPL_STANDALONE_STUB :: string where
  "TPL_STANDALONE_STUB = ''repository_standalone_stub.j2''"
definition ORM_SQLMODEL :: string where
  "ORM_SQLMODEL = ''sqlmodel''"
definition ORM_SQLALCHEMY :: string where
  "ORM_SQLALCHEMY = ''sqlalchemy''"

definition standalone_template :: "GenrepoConfig \<Rightarrow> error + string" where
  "standalone_template cfg =
     (if stub_only (generation cfg) then Inr TPL_STANDALONE_STUB
      else if orm cfg = ORM_SQLMODEL then Inr TPL_STANDALONE_SQLMODEL
      else if orm cfg = ORM_SQLALCHEMY then Inr TPL_STANDALONE_SQLALCHEMY
      else Inl (ValueError (ERR_UNSUPPORTED_ORM (orm cfg))))"

definition base_template :: "GenrepoConfig \<Rightarrow> error + string" where
  "base_template cfg =
     (if stub_only (generation cfg) then Inr TPL_BASE_STUB
      else if orm cfg = ORM_SQLMODEL
        then Inr (if async_mode cfg then TPL_BASE_SQLMODEL_ASYNC else TPL_BASE_SQLMODEL_SYNC)
      else if orm cfg = ORM_SQLALCHEMY
        then Inr (if async_mode cfg then TPL_BASE_SQLALCHEMY_ASYNC
                  else TPL_BASE_SQLALCHEMY_SYNC)
      else Inl (ValueError (ERR_UNSUPPORTED_ORM (orm cfg))))"

definition to_snake :: "string \<Rightarrow> string" where
  "to_snake nm =
     concat (map (\<lambda>(i, ch). (if isupper ch \<and> 0 < i then ''_'' else []) @ [lower_chr ch])
                 (enumerate 0 nm))"

definition to_pascal :: "string \<Rightarrow> string" where
  "to_pascal snake =
     (let parts = filter (\<lambda>p. p \<noteq> [])
                    (split_chr (CHR ''_'')
                       (map (\<lambda>c. if c = CHR ''-'' then CHR ''_'' else c) snake))
      in concat (map capitalize parts))"

text \<open>
  A template environment is a pure function from a template name and the variables
  bound at \<open>render\<close> to the rendered text (spec 4.4 and 6); every named template is
  taken to exist.
\<close>

datatype tval = TStr string | TList "string list" | TBool bool

type_synonym environment = "string \<Rightarrow> (string \<times> tval) list \<Rightarrow> string"

record GeneratedFile =
  path :: string
  content :: string

record FilePlan =
  path :: string
  exists :: bool
  would_write :: bool
  overwrite :: bool
  reason :: "string option"

record PlanReport =
  files :: "FilePlan list"

definition to_write :: "PlanReport \<Rightarrow> FilePlan list" where
  "to_write r = filter would_write (files r)"

definition up_to_date :: "PlanReport \<Rightarrow> FilePlan list" where
  "up_to_date r =
     filter (\<lambda>f. \<not> would_write f \<and> exists f \<and> reason f = Some ''up-to-date'') (files r)"

definition render_repo :: "environment \<Rightarrow> ModelConfig \<Rightarrow> string \<Rightarrow> string \<Rightarrow> bool
    \<Rightarrow> error + GeneratedFile" where
  "render_repo env model template_name commit is_async =
     (case split_colon (import_path model) of
        [md, cls_name] \<Rightarrow>
          (let file_name = to_snake (name model) @ ''_repository.py'';
               ordered_methods = filter (\<lambda>m. m \<in> set (methods model)) CRUD_METHODS
           in Inr \<lparr>GeneratedFile.path = file_name,
                   content = env template_name
                     [(''model_name'', TStr (name model)), (''model_module'', TStr md),
                      (''model_class'', TStr cls_name), (''id_field'', TStr (id_field model)),
                      (''id_type'', TStr (id_type model)), (''methods'', TList ordered_methods),
                      (''personalize_methods'', TList (personalize_methods model)),
                      (''commit_strategy'', TStr commit), (''is_async'', TBool is_async)]\<rparr>)
      | _ \<Rightarrow> Inl (ValueError ''not enough values to unpack (expected 2, got 1)''))"

text \<open>\<open>base_filename.rsplit(".", 1)[0]\<close>: the text before the last dot.\<close>

definition base_module_of :: "string \<Rightarrow> string" where
  "base_module_of fname =
     (if CHR ''.'' \<in> set fname
      then rev (tl (dropWhile (\<lambda>c. c \<noteq> CHR ''.'') (rev fname)))
      else fname)"

definition render_base :: "environment \<Rightarrow> GenrepoConfig \<Rightarrow> string \<Rightarrow> string" where
  "render_base env cfg template_name =
     env template_name [(''base_class_name'', TStr (base_class_name (generation cfg))),
                        (''commit_strategy'', TStr (commit_strategy cfg))]"

text \<open>The stub of combined mode; \<open>split(":", 1)[1]\<close> raises when the import path has no
  colon.\<close>

definition render_stub :: "environment \<Rightarrow> GenrepoConfig \<Rightarrow> ModelConfig \<Rightarrow> error + string" where
  "render_stub env cfg model =
     (case split_colon (import_path model) of
        md # cls_name # _ \<Rightarrow>
          Inr (env TPL_USER_STUB
                 [(''model_name'', TStr (name model)), (''model_module'', TStr md),
                  (''model_class'', TStr cls_name),
                  (''base_module'', TStr (base_module_of (base_filename (generation cfg)))),
                  (''base_class_name'', TStr (base_class_name (generation cfg))),
                  (''id_field'', TStr (id_field model)), (''id_type'', TStr (id_type model)),
                  (''personalize_methods'', TList (personalize_methods model)),
                  (''orm'', TStr (orm cfg)), (''is_async'', TBool (async_mode cfg))])
      | _ \<Rightarrow> Inl (IndexError ''list index out of range''))"

section \<open>generator.py: ModelResolver\<close>

text \<open>
  A path is the string \<open>str\<close> gives for it. As \<open>pathlib\<close> does on POSIX, a path is
  read as a root (nothing, \<open>/\<close>, or \<open>//\<close> for exactly two leading slashes) and its
  parts, the pieces between slashes without the empty ones and the single dots;
  \<open>..\<close> is a part like any other. \<open>joinpath a b\<close> is \<open>a / b\<close>.

  The environment of model resolution: \<open>listdir d\<close> gives the names in directory \<open>d\<close>
  (none when it is not an existing directory), in the order the operating system
  happens to return them, and \<open>importable md c\<close> says whether module \<open>md\<close> can be
  imported and has the attribute \<open>c\<close>.
\<close>

definition path_root :: "string \<Rightarrow> string" where
  "path_root s =
     (if startswith s ''//'' \<and> \<not> startswith s ''///'' then ''//''
      else if startswith s ''/'' then ''/''
      else [])"

definition path_parts :: "string \<Rightarrow> string list" where
  "path_parts s = filter (\<lambda>c. c \<noteq> [] \<and> c \<noteq> ''.'') (split_chr (CHR ''/'') s)"

fun join_parts :: "string list \<Rightarrow> string" where
  "join_parts [] = []"
| "join_parts [c] = c"
| "join_parts (c # cs) = c @ ''/'' @ join_parts cs"

definition path_str :: "string \<Rightarrow> string list \<Rightarrow> string" where
  "path_str r parts = (if r = [] \<and> parts = [] then ''.'' else r @ join_parts parts)"

definition joinpath :: "string \<Rightarrow> string \<Rightarrow> string" where
  "joinpath a b =
     (if path_root b \<noteq> [] then path_str (path_root b) (path_parts b)
      else path_str (path_root a) (path_parts a @ path_parts b))"

text \<open>\<open>Path.parent\<close> drops the last part, whatever it is.\<close>

definition path_parent :: "string \<Rightarrow> string" where
  "path_parent p = path_str (path_root p) (butlast (path_parts p))"

text \<open>\<open>path.with_suffix(path.suffix + ".tmp")\<close>: the last part with \<open>.tmp\<close> appended;
  a path without parts has no name.\<close>

definition with_suffix_tmp :: "string \<Rightarrow> error + string" where
  "with_suffix_tmp p =
     (if path_parts p = [] then Inl (ValueError (p @ '' has an empty name''))
      else Inr (path_str (path_root p)
                  (butlast (path_parts p) @ [last (path_parts p) @ ''.tmp''])))"

text \<open>\<open>Path.stem\<close>: the name without its last suffix; a leading or a trailing dot
  starts no suffix.\<close>

definition stem :: "string \<Rightarrow> string" where
  "stem nm =
     (let i = length nm - Suc (length (takeWhile (\<lambda>c. c \<noteq> CHR ''.'') (rev nm)))
      in if CHR ''.'' \<in> set nm \<and> 0 < i \<and> Suc i < length nm then take i nm else nm)"

definition glob_py :: "string list \<Rightarrow> string list" where
  "glob_py names = filter (\<lambda>n. endswith n ''.py'') names"

text \<open>The test of \<open>resolve\<close> for a wildcard entry.\<close>

definition is_wildcard :: "ModelConfig \<Rightarrow> bool" where
  "is_wildcard m = (lower (name m) \<in> {''all'', ''*''})"

text \<open>The first loop of \<open>resolve\<close>: wildcard entries leave the list, the last one is
  kept as the wildcard, the others are indexed by name.\<close>

fun separate :: "ModelConfig list \<Rightarrow> ModelConfig list \<Rightarrow> (string \<rightharpoonup> ModelConfig)
    \<Rightarrow> ModelConfig option
    \<Rightarrow> ModelConfig list \<times> (string \<rightharpoonup> ModelConfig) \<times> ModelConfig option" where
  "separate [] ms explicit_by_name wildcard = (ms, explicit_by_name, wildcard)"
| "separate (m # rest) ms explicit_by_name wildcard =
     (if is_wildcard m
      then separate rest (remove1 m ms) explicit_by_name (Some m)
      else separate rest ms (explicit_by_name(name m \<mapsto> m)) wildcard)"

text \<open>The discovery loop over the sorted source files; \<open>dflt\<close> carries the defaults
  (identifier field and type, operations, personalize methods).\<close>

fun discover_loop :: "string \<Rightarrow> (string \<rightharpoonup> ModelConfig) \<Rightarrow> ModelConfig \<Rightarrow> string list
    \<Rightarrow> ModelConfig list \<Rightarrow> error + ModelConfig list" where
  "discover_loop pkg explicit_by_name dflt [] ms = Inr ms"
| "discover_loop pkg explicit_by_name dflt (py # rest) ms =
     (if startswith py ''__'' then discover_loop pkg explicit_by_name dflt rest ms
      else
        (let cls = to_pascal (stem py);
             ip = pkg @ ''.'' @ stem py @ '':'' @ cls
         in if explicit_by_name cls \<noteq> None
            then discover_loop pkg explicit_by_name dflt rest ms
            else (case ModelConfig_init cls ip (id_field dflt) (id_type dflt)
                         (methods dflt) (personalize_methods dflt) of
                    Inl e \<Rightarrow> Inl e
                  | Inr m \<Rightarrow> discover_loop pkg explicit_by_name dflt rest (ms @ [m]))))"

fun check_imports :: "(string \<Rightarrow> string \<Rightarrow> bool) \<Rightarrow> ModelConfig list \<Rightarrow> error option" where
  "check_imports importable [] = None"
| "check_imports importable (m # rest) =
     (case split_colon (import_path m) of
        [mod_name, cls_name] \<Rightarrow>
          if importable mod_name cls_name then check_imports importable rest
          else Some (ValueError (ERR_MODEL_NOT_IMPORTABLE (import_path m)))
      | _ \<Rightarrow> Some (ValueError (ERR_MODEL_NOT_IMPORTABLE (import_path m))))"

definition resolve :: "GenrepoConfig \<Rightarrow> string \<Rightarrow> (string \<Rightarrow> string list)
    \<Rightarrow> (string \<Rightarrow> string \<Rightarrow> bool) \<Rightarrow> error + ModelConfig list" where
  "resolve cfg project_root listdir importable =
     (case separate (models cfg) (models cfg) Map.empty None of
        (ms, explicit_by_name, wildcard) \<Rightarrow>
          if discover_all cfg \<or> wildcard \<noteq> None then
            (let base_dir = (case models_dir cfg of
                               Some d \<Rightarrow> d
                             | None \<Rightarrow> joinpath project_root ''app/models'');
                 fallback = (case wildcard of
                               Some w \<Rightarrow> if CHR '':'' \<notin> set (import_path w)
                                         then import_path w else ''app.models''
                             | None \<Rightarrow> ''app.models'');
                 pkg = (case models_package cfg of
                          Some pk \<Rightarrow> if pk \<noteq> [] then pk else fallback
                        | None \<Rightarrow> fallback);
                 dflt = (case wildcard of
                           Some w \<Rightarrow> w
                         | None \<Rightarrow> \<lparr>name = [], import_path = [], id_field = ''id'',
                                     id_type = ''int'', methods = [''all''],
                                     personalize_methods = []\<rparr>)
             in discover_loop pkg explicit_by_name dflt (sort (glob_py (listdir base_dir))) ms)
          else if \<not> allow_missing_models cfg then
            (case check_imports importable ms of
               Some e \<Rightarrow> Inl e
             | None \<Rightarrow> Inr ms)
          else Inr ms)"

section \<open>generator.py: the file system, planning and writing\<close>

text \<open>
  What a path shows to the program: nothing, a text, or something that exists and
  cannot be read as text (a directory, a file that is not text). \<open>classify_file\<close>
  sees the file system through this view.
\<close>

datatype node = Unreadable | Text string

type_synonym filesystem = "string \<Rightarrow> node option"

definition classify_file :: "filesystem \<Rightarrow> string \<Rightarrow> string \<Rightarrow> bool \<Rightarrow> FilePlan" where
  "classify_file fs p proposed ov =
     (case fs p of
        None \<Rightarrow> \<lparr>path = p, exists = False, would_write = True, overwrite = ov,
                 reason = Some ''create''\<rparr>
      | Some n \<Rightarrow>
          if \<not> ov then \<lparr>path = p, exists = True, would_write = False, overwrite = False,
                         reason = Some ''exists-no-overwrite''\<rparr>
          else (case n of
                  Unreadable \<Rightarrow> \<lparr>path = p, exists = True, would_write = True,
                                  overwrite = True, reason = Some ''overwrite''\<rparr>
                | Text current \<Rightarrow>
                    if current = proposed
                    then \<lparr>path = p, exists = True, would_write = False, overwrite = True,
                          reason = Some ''up-to-date''\<rparr>
                    else \<lparr>path = p, exists = True, would_write = True, overwrite = True,
                          reason = Some ''overwrite''\<rparr>))"

text \<open>
  The disk: the working directory, the directories that exist and the files with
  what they hold, each named by its location, the list of names from the root (the
  root itself is \<open>[]\<close> and always a directory). There are no links and no
  permissions, and names differ when their strings differ. On a disk as the
  operating system keeps it, the working directory and the parent of every
  directory and file are directories, and no location is both a directory and a
  file.
\<close>

record disk =
  cwd :: "string list"
  directories :: "string list list"
  contents :: "(string list \<times> node) list"

definition is_dir_at :: "disk \<Rightarrow> string list \<Rightarrow> bool" where
  "is_dir_at d q = (q = [] \<or> q \<in> set (directories d))"

text \<open>
  How the operating system follows a path: from the root or the working directory,
  part by part; a part can only be followed from a directory, and \<open>..\<close> leads to the
  parent. The result is the location the path names, which need not exist.
\<close>

datatype oserr = ENOENT | ENOTDIR

fun walk :: "disk \<Rightarrow> string list \<Rightarrow> string list \<Rightarrow> oserr + string list" where
  "walk d cur [] = Inr cur"
| "walk d cur (c # rest) =
     (if is_dir_at d cur then walk d (if c = ''..'' then butlast cur else cur @ [c]) rest
      else if map_of (contents d) cur \<noteq> None then Inl ENOTDIR
      else Inl ENOENT)"

definition locate :: "disk \<Rightarrow> string \<Rightarrow> oserr + string list" where
  "locate d p = walk d (if path_root p = [] then cwd d else []) (path_parts p)"

definition os_error :: "oserr \<Rightarrow> string \<Rightarrow> error" where
  "os_error e p = (case e of ENOENT \<Rightarrow> FileNotFoundError p | ENOTDIR \<Rightarrow> NotADirectoryError p)"

text \<open>The view of the disk: \<open>lookup d p\<close> is \<open>None\<close> exactly when \<open>p.exists()\<close> is false,
  and \<open>Some (Text t)\<close> exactly when \<open>p.read_text()\<close> returns \<open>t\<close>.\<close>

definition lookup :: "disk \<Rightarrow> filesystem" where
  "lookup d p =
     (case locate d p of
        Inl e \<Rightarrow> None
      | Inr q \<Rightarrow> if is_dir_at d q then Some Unreadable else map_of (contents d) q)"

text \<open>The names in a directory, for \<open>glob\<close>.\<close>

definition listing :: "disk \<Rightarrow> string \<Rightarrow> string list" where
  "listing d p =
     (case locate d p of
        Inl e \<Rightarrow> []
      | Inr q \<Rightarrow>
          if is_dir_at d q
          then remdups (map last (filter (\<lambda>x. x \<noteq> [] \<and> butlast x = q)
                                         (directories d @ map fst (contents d))))
          else [])"

text \<open>\<open>Path.resolve\<close> without links: the absolute path, \<open>..\<close> removed with the part
  before it.\<close>

definition resolve_path :: "disk \<Rightarrow> string \<Rightarrow> string" where
  "resolve_path d p =
     path_str ''/'' (fold (\<lambda>c acc. if c = ''..'' then butlast acc else acc @ [c])
                          (path_parts p) (if path_root p = [] then cwd d else []))"

text \<open>\<open>os.mkdir\<close>, and \<open>Path.mkdir(parents=True, exist_ok=True)\<close>, which tries the
  directory itself, on \<open>FileNotFoundError\<close> makes the parent in the same way and tries
  again, and lets any other error pass when the path is a directory. The second
  argument is the root of the path and the third its parts, last part first.\<close>

definition os_mkdir :: "disk \<Rightarrow> string \<Rightarrow> disk \<times> error option" where
  "os_mkdir d p =
     (case locate d p of
        Inl e \<Rightarrow> (d, Some (os_error e p))
      | Inr q \<Rightarrow>
          if is_dir_at d q \<or> map_of (contents d) q \<noteq> None then (d, Some (FileExistsError p))
          else (d\<lparr>directories := directories d @ [q]\<rparr>, None))"

definition is_dir :: "disk \<Rightarrow> string \<Rightarrow> bool" where
  "is_dir d p = (case locate d p of Inl e \<Rightarrow> False | Inr q \<Rightarrow> is_dir_at d q)"

fun mkdir_parents :: "disk \<Rightarrow> string \<Rightarrow> string list \<Rightarrow> disk \<times> error option" where
  "mkdir_parents d r [] =
     (case os_mkdir d (path_str r []) of
        (d1, None) \<Rightarrow> (d1, None)
      | (d1, Some (FileNotFoundError x)) \<Rightarrow> (d1, Some (FileNotFoundError x))
      | (d1, Some e) \<Rightarrow> if is_dir d1 (path_str r []) then (d1, None) else (d1, Some e))"
| "mkdir_parents d r (c # rest) =
     (case os_mkdir d (path_str r (rev (c # rest))) of
        (d1, None) \<Rightarrow> (d1, None)
      | (d1, Some (FileNotFoundError x)) \<Rightarrow>
          (case mkdir_parents d1 r rest of
             (d2, Some e) \<Rightarrow> (d2, Some e)
           | (d2, None) \<Rightarrow>
               (case os_mkdir d2 (path_str r (rev (c # rest))) of
                  (d3, None) \<Rightarrow> (d3, None)
                | (d3, Some (FileNotFoundError y)) \<Rightarrow> (d3, Some (FileNotFoundError y))
                | (d3, Some e) \<Rightarrow>
                    if is_dir d3 (path_str r (rev (c # rest))) then (d3, None)
                    else (d3, Some e)))
      | (d1, Some e) \<Rightarrow>
          if is_dir d1 (path_str r (rev (c # rest))) then (d1, None) else (d1, Some e))"

definition mkdir :: "disk \<Rightarrow> string \<Rightarrow> disk \<times> error option" where
  "mkdir d p = mkdir_parents d (path_root p) (rev (path_parts p))"

text \<open>\<open>Path.write_text\<close> creates the file or replaces what it holds; \<open>Path.replace\<close>
  moves a file (here always the temporary file just written) onto the target.\<close>

definition write_text :: "disk \<Rightarrow> string \<Rightarrow> string \<Rightarrow> disk \<times> error option" where
  "write_text d p text =
     (case locate d p of
        Inl e \<Rightarrow> (d, Some (os_error e p))
      | Inr q \<Rightarrow>
          if is_dir_at d q then (d, Some (IsADirectoryError p))
          else (d\<lparr>contents := (q, Text text) # filter (\<lambda>kv. fst kv \<noteq> q) (contents d)\<rparr>, None))"

definition replace_file :: "disk \<Rightarrow> string \<Rightarrow> string \<Rightarrow> disk \<times> error option" where
  "replace_file d src dst =
     (case locate d src of
        Inl e \<Rightarrow> (d, Some (os_error e src))
      | Inr s \<Rightarrow>
          (case map_of (contents d) s of
             None \<Rightarrow> (d, Some (FileNotFoundError src))
           | Some n \<Rightarrow>
               (case locate d dst of
                  Inl e \<Rightarrow> (d, Some (os_error e dst))
                | Inr q \<Rightarrow>
                    if is_dir_at d q then (d, Some (IsADirectoryError dst))
                    else if q = s then (d, None)
                    else (d\<lparr>contents := (q, n) # filter (\<lambda>kv. fst kv \<noteq> q \<and> fst kv \<noteq> s)
                                                    (contents d)\<rparr>, None))))"

definition ensure_package :: "disk \<Rightarrow> string \<Rightarrow> disk \<times> error option" where
  "ensure_package d dir_path =
     (case mkdir d dir_path of
        (d1, Some e) \<Rightarrow> (d1, Some e)
      | (d1, None) \<Rightarrow>
          (let init_file = joinpath dir_path ''__init__.py''
           in if lookup d1 init_file = None then write_text d1 init_file [] else (d1, None)))"

text \<open>The inner function \<open>write\<close> of \<open>generate_from_config\<close>: skip when the target
  exists and overwrite is off; else make the parent directories, write the text to
  the sibling \<open>path.tmp\<close> and let it replace the target.\<close>

definition write_file :: "disk \<Rightarrow> string \<Rightarrow> string \<Rightarrow> bool \<Rightarrow> disk \<times> (error + bool)" where
  "write_file d p text ov =
     (if lookup d p \<noteq> None \<and> \<not> ov then (d, Inr False)
      else
        (case mkdir d (path_parent p) of
           (d1, Some e) \<Rightarrow> (d1, Inl e)
         | (d1, None) \<Rightarrow>
             (case with_suffix_tmp p of
                Inl e \<Rightarrow> (d1, Inl e)
              | Inr tmp \<Rightarrow>
                  (case write_text d1 tmp text of
                     (d2, Some e) \<Rightarrow> (d2, Inl e)
                   | (d2, None) \<Rightarrow>
                       (case replace_file d2 tmp p of
                          (d3, Some e) \<Rightarrow> (d3, Inl e)
                        | (d3, None) \<Rightarrow> (d3, Inr True))))))"

text \<open>The base file of base and combined mode, written and planned.\<close>

definition generate_base :: "environment \<Rightarrow> GenrepoConfig \<Rightarrow> string \<Rightarrow> disk
    \<Rightarrow> disk \<times> (error + string list)" where
  "generate_base env cfg out_dir d =
     (if mode (generation cfg) = ''base'' \<or> mode (generation cfg) = ''combined'' then
        (let base_path = joinpath out_dir (base_filename (generation cfg)) in
         (case base_template cfg of
            Inl e \<Rightarrow> (d, Inl e)
          | Inr template_name \<Rightarrow>
              (case write_file d base_path (render_base env cfg template_name)
                      (overwrite_base (generation cfg)) of
                 (d', Inl e) \<Rightarrow> (d', Inl e)
               | (d', Inr ok) \<Rightarrow> (d', Inr (if ok then [base_path] else [])))))
      else (d, Inr []))"

definition plan_base :: "environment \<Rightarrow> GenrepoConfig \<Rightarrow> string \<Rightarrow> filesystem
    \<Rightarrow> error + FilePlan list" where
  "plan_base env cfg out_dir fs =
     (if mode (generation cfg) = ''base'' \<or> mode (generation cfg) = ''combined'' then
        (let base_path = joinpath out_dir (base_filename (generation cfg)) in
         (case base_template cfg of
            Inl e \<Rightarrow> Inl e
          | Inr template_name \<Rightarrow>
              Inr [classify_file fs base_path (render_base env cfg template_name)
                     (overwrite_base (generation cfg))]))
      else Inr [])"

text \<open>The loops over the resolved models: standalone repositories and combined
  stubs, written and planned.\<close>

fun write_repos :: "environment \<Rightarrow> GenrepoConfig \<Rightarrow> string \<Rightarrow> string \<Rightarrow> bool
    \<Rightarrow> ModelConfig list \<Rightarrow> disk \<Rightarrow> string list
    \<Rightarrow> disk \<times> (error + string list)" where
  "write_repos env cfg tpl_name out_dir force [] d written = (d, Inr written)"
| "write_repos env cfg tpl_name out_dir force (model # rest) d written =
     (case render_repo env model tpl_name (commit_strategy cfg) (async_mode cfg) of
        Inl e \<Rightarrow> (d, Inl e)
      | Inr gen \<Rightarrow>
          (let target = joinpath out_dir (GeneratedFile.path gen) in
           (case write_file d target (content gen) force of
              (d', Inl e) \<Rightarrow> (d', Inl e)
            | (d', Inr ok) \<Rightarrow>
                write_repos env cfg tpl_name out_dir force rest d'
                  (if ok then written @ [target] else written))))"

fun plan_repos :: "environment \<Rightarrow> GenrepoConfig \<Rightarrow> string \<Rightarrow> string \<Rightarrow> bool
    \<Rightarrow> ModelConfig list \<Rightarrow> filesystem \<Rightarrow> FilePlan list \<Rightarrow> error + FilePlan list" where
  "plan_repos env cfg tpl_name out_dir force [] fs plans = Inr plans"
| "plan_repos env cfg tpl_name out_dir force (model # rest) fs plans =
     (case render_repo env model tpl_name (commit_strategy cfg) (async_mode cfg) of
        Inl e \<Rightarrow> Inl e
      | Inr gen \<Rightarrow>
          (let target = joinpath out_dir (GeneratedFile.path gen) in
           plan_repos env cfg tpl_name out_dir force rest fs
             (plans @ [classify_file fs target (content gen) force])))"

fun write_stubs :: "environment \<Rightarrow> GenrepoConfig \<Rightarrow> string \<Rightarrow> ModelConfig list
    \<Rightarrow> disk \<Rightarrow> string list \<Rightarrow> disk \<times> (error + string list)" where
  "write_stubs env cfg out_dir [] d written = (d, Inr written)"
| "write_stubs env cfg out_dir (model # rest) d written =
     (let file_name = to_snake (name model) @ ''_repository.py'' in
      (case render_stub env cfg model of
         Inl e \<Rightarrow> (d, Inl e)
       | Inr stub_content \<Rightarrow>
           (let stub_path = joinpath out_dir file_name in
            (case write_file d stub_path stub_content False of
               (d', Inl e) \<Rightarrow> (d', Inl e)
             | (d', Inr ok) \<Rightarrow>
                 write_stubs env cfg out_dir rest d'
                   (if ok then written @ [stub_path] else written)))))"

fun plan_stubs :: "environment \<Rightarrow> GenrepoConfig \<Rightarrow> string \<Rightarrow> ModelConfig list
    \<Rightarrow> filesystem \<Rightarrow> FilePlan list \<Rightarrow> error + FilePlan list" where
  "plan_stubs env cfg out_dir [] fs plans = Inr plans"
| "plan_stubs env cfg out_dir (model # rest) fs plans =
     (let file_name = to_snake (name model) @ ''_repository.py'' in
      (case render_stub env cfg model of
         Inl e \<Rightarrow> Inl e
       | Inr stub_content \<Rightarrow>
           (let stub_path = joinpath out_dir file_name in
            plan_stubs env cfg out_dir rest fs
              (plans @ [classify_file fs stub_path stub_content False]))))"

text \<open>
  \<open>generate_from_config\<close> returns the disk it leaves and the written paths or the
  error. The models are resolved after the package marker and the base file are
  written, on the disk as it then is; \<open>plan_from_config\<close> resolves them on the disk
  it is given and changes nothing.
\<close>

definition generate_from_config :: "GenrepoConfig \<Rightarrow> string \<Rightarrow> bool \<Rightarrow> environment
    \<Rightarrow> (string \<Rightarrow> string \<Rightarrow> bool) \<Rightarrow> disk \<Rightarrow> disk \<times> (error + string list)" where
  "generate_from_config cfg project_root force env importable d =
     (let out_dir = resolve_path d (joinpath project_root (output_dir cfg)) in
      (case ensure_package d out_dir of
         (d1, Some e) \<Rightarrow> (d1, Inl e)
       | (d1, None) \<Rightarrow>
      (case generate_base env cfg out_dir d1 of
         (d2, Inl e) \<Rightarrow> (d2, Inl e)
       | (d2, Inr written) \<Rightarrow>
           if mode (generation cfg) = ''base'' then (d2, Inr written)
           else
             (case resolve cfg project_root (listing d2) importable of
                Inl e \<Rightarrow> (d2, Inl e)
              | Inr ms \<Rightarrow>
                  if mode (generation cfg) = ''standalone'' then
                    (case standalone_template cfg of
                       Inl e \<Rightarrow> (d2, Inl e)
                     | Inr tpl_name \<Rightarrow>
                         write_repos env cfg tpl_name out_dir force ms d2 written)
                  else write_stubs env cfg out_dir ms d2 written))))"

definition plan_from_config :: "GenrepoConfig \<Rightarrow> string \<Rightarrow> bool \<Rightarrow> environment
    \<Rightarrow> (string \<Rightarrow> string \<Rightarrow> bool) \<Rightarrow> disk \<Rightarrow> error + PlanReport" where
  "plan_from_config cfg project_root force env importable d =
     (let out_dir = resolve_path d (joinpath project_root (output_dir cfg)) in
      (case plan_base env cfg out_dir (lookup d) of
         Inl e \<Rightarrow> Inl e
       | Inr plans \<Rightarrow>
           if mode (generation cfg) = ''base'' then Inr \<lparr>files = plans\<rparr>
           else
             (case resolve cfg project_root (listing d) importable of
                Inl e \<Rightarrow> Inl e
              | Inr ms \<Rightarrow>
                  if mode (generation cfg) = ''standalone'' then
                    (case standalone_template cfg of
                       Inl e \<Rightarrow> Inl e
                     | Inr tpl_name \<Rightarrow>
                         (case plan_repos env cfg tpl_name out_dir force ms (lookup d) plans of
                            Inl e \<Rightarrow> Inl e
                          | Inr ps \<Rightarrow> Inr \<lparr>files = ps\<rparr>))
                  else
                    (case plan_stubs env cfg out_dir ms (lookup d) plans of
                       Inl e \<Rightarrow> Inl e
                     | Inr ps \<Rightarrow> Inr \<lparr>files = ps\<rparr>))))"

section \<open>Concrete inputs\<close>

text \<open>Inputs at which the theorems below are evaluated. \<open>schema_stub\<close> stands in for
  the schema validation of the validation library at those inputs: it accepts a
  document whose \<open>models\<close> entry is a list and rejects every other document, as the
  annotation \<open>models: list[ModelConfig]\<close> makes the library do.\<close>

definition sample_generation :: Generation where
  "sample_generation = \<lparr>mode = ''standalone'', base_filename = ''base_repository.py'',
     base_class_name = ''BaseRepository'', overwrite_base = False, stub_only = False\<rparr>"

definition sample_user :: ModelConfig where
  "sample_user = \<lparr>name = ''User'', import_path = ''app.models.user:User'', id_field = ''id'',
     id_type = ''int'', methods = [''get'', ''list''], personalize_methods = []\<rparr>"

definition sample_cfg :: GenrepoConfig where
  "sample_cfg = \<lparr>orm = ''sqlmodel'', async_mode = False, output_dir = ''out'',
     models = [sample_user], models_dir = None, models_package = None,
     discover_all = False, commit_strategy = ''none'', allow_missing_models = True,
     generation = sample_generation\<rparr>"

definition schema_stub :: "yaml \<Rightarrow> string + GenrepoConfig" where
  "schema_stub d =
     (case dict_get d ''models'' of
        Inr (YList xs) \<Rightarrow> Inr (sample_cfg\<lparr>models := if xs = [] then [] else [sample_user]\<rparr>)
      | _ \<Rightarrow> Inl ''models: Input should be a valid list'')"

definition sample_listdir :: "string \<Rightarrow> string list" where
  "sample_listdir d =
     (if d = ''app/models''
      then [''foo.py'', ''user.py'', ''__init__.py'', ''notes.txt'', ''bar.py'']
      else [])"

definition sample_importable :: "string \<Rightarrow> string \<Rightarrow> bool" where
  "sample_importable md c = True"

definition discovery_cfg :: GenrepoConfig where
  "discovery_cfg = sample_cfg\<lparr>discover_all := True, models_dir := Some ''app/models'',
     models_package := Some ''app.models''\<rparr>"

definition sample_env :: environment where
  "sample_env template_name bindings =
     template_name @ concat (map (\<lambda>kv. case snd kv of TStr v \<Rightarrow> '' '' @ v | _ \<Rightarrow> []) bindings)"

definition colliding_cfg :: GenrepoConfig where
  "colliding_cfg = sample_cfg\<lparr>
     generation := sample_generation\<lparr>mode := ''combined'',
       base_filename := ''user_repository.py'', overwrite_base := True\<rparr>\<rparr>"

definition bare_namespace_cfg :: GenrepoConfig where
  "bare_namespace_cfg = sample_cfg\<lparr>
     models := [sample_user\<lparr>import_path := ''app.models''\<rparr>],
     generation := sample_generation\<lparr>mode := ''combined''\<rparr>\<rparr>"

definition alias_cfg :: GenrepoConfig where
  "alias_cfg = sample_cfg\<lparr>
     generation := sample_generation\<lparr>mode := ''combined'',
       base_filename := ''sub/../user_repository.py''\<rparr>\<rparr>"

definition empty_disk :: disk where
  "empty_disk = \<lparr>cwd = [''work''], directories = [[''work'']], contents = []\<rparr>"

definition edited_disk :: disk where
  "edited_disk = \<lparr>cwd = [''work''],
     directories = [[''work''], [''work'', ''out'']],
     contents = [([''work'', ''out'', ''__init__.py''], Text []),
                 ([''work'', ''out'', ''user_repository.py''], Text ''edited by hand''),
                 ([''work'', ''out'', ''base_repository.py''], Text ''edited base'')]\<rparr>"

definition generated_disk :: disk where
  "generated_disk = \<lparr>cwd = [''work''],
     directories = [[''work''], [''work'', ''out'']],
     contents = [([''work'', ''out'', ''__init__.py''], Text []),
                 ([''work'', ''out'', ''user_repository.py''],
                  Text ''repository_sqlmodel.j2 User app.models.user User id int none'')]\<rparr>"

definition doc_with_models :: "yaml \<Rightarrow> yaml" where
  "doc_with_models mf = YMap [(''orm'', YStr ''sqlmodel''), (''output_dir'', YStr ''out''),
     (''models'', mf)]"

section \<open>Normalisation of the requested operations\<close>

lemma first_occurrences_Cons:
  "rev (remdups (rev (m # ms))) = m # filter (\<lambda>x. x \<noteq> m) (rev (remdups (rev ms)))"
proof -
  have "remdups (xs @ [m]) = filter (\<lambda>x. x \<noteq> m) (remdups xs) @ [m]" for xs
    by (induction xs) auto
  then show ?thesis
    by (simp add: rev_filter)
qed

lemma methods_loop_valid:
  assumes "set v \<subseteq> set allowed" and "''all'' \<notin> set v" and "''none'' \<notin> set v"
  shows "methods_loop allowed r (set r) v
         = Inr (r @ filter (\<lambda>x. x \<notin> set r) (rev (remdups (rev v))))"
  using assms
proof (induction v arbitrary: r)
  case Nil
  then show ?case by simp
next
  case (Cons m ms)
  have ms: "set ms \<subseteq> set allowed" "''all'' \<notin> set ms" "''none'' \<notin> set ms"
    using Cons.prems by auto
  have m: "m \<noteq> ''all''" "m \<noteq> ''none''" "m \<in> set allowed"
    using Cons.prems by auto
  show ?case
  proof (cases "m \<in> set r")
    case True
    have "filter (\<lambda>x. x \<notin> set r) (filter (\<lambda>x. x \<noteq> m) (rev (remdups (rev ms))))
          = filter (\<lambda>x. x \<notin> set r) (rev (remdups (rev ms)))"
      using True by (auto intro: filter_cong)
    then show ?thesis
      using True m Cons.IH[OF ms, of r] by (simp add: first_occurrences_Cons del: rev.simps)
  next
    case False
    have "insert m (set r) = set (r @ [m])" by simp
    then have "methods_loop allowed (r @ [m]) (insert m (set r)) ms
          = Inr ((r @ [m]) @ filter (\<lambda>x. x \<notin> set (r @ [m])) (rev (remdups (rev ms))))"
      using Cons.IH[OF ms, of "r @ [m]"] by simp
    moreover have "filter (\<lambda>x. x \<notin> set (r @ [m])) (rev (remdups (rev ms)))
          = filter (\<lambda>x. x \<notin> set r) (filter (\<lambda>x. x \<noteq> m) (rev (remdups (rev ms))))"
      by (auto intro: filter_cong)
    ultimately show ?thesis
      using False m by (simp add: first_occurrences_Cons del: rev.simps)
  qed
qed

lemma sentinels_not_methods: "''all'' \<notin> set CRUD_METHODS" "''none'' \<notin> set CRUD_METHODS"
  by (simp_all add: CRUD_METHODS_def)

text \<open>
  Claim C4. \<open>methods: [all]\<close> normalises to exactly the ten operations of the fixed
  vocabulary (in the vocabulary's order, without repetition), and \<open>methods: [none]\<close>
  normalises to the empty list.
\<close>

theorem validate_methods_all_none:
  "validate_methods [''all''] = Inr [''get'', ''get_or_raise'', ''list'', ''find_one'',
       ''create'', ''update'', ''delete'', ''delete_by_id'', ''exists'', ''count'']
   \<and> validate_methods [''all''] = Inr CRUD_METHODS
   \<and> length CRUD_METHODS = 10 \<and> distinct CRUD_METHODS
   \<and> validate_methods [''none''] = Inr []"
  by (simp add: validate_methods_def CRUD_METHODS_def)

text \<open>
  Claim C5. A token list drawn from the vocabulary that asks for \<open>get_or_raise\<close> or
  \<open>delete_by_id\<close> but not for \<open>get\<close> is accepted, and its normal form is \<open>get\<close>
  followed by the first occurrences of the input's tokens in input order: \<open>get\<close> stands
  before the operations that depend on it, the order of the others is the input's,
  and nothing is repeated.
\<close>

theorem validate_methods_inserts_get:
  assumes "set v \<subseteq> set CRUD_METHODS"
    and "''get'' \<notin> set v"
    and "''get_or_raise'' \<in> set v \<or> ''delete_by_id'' \<in> set v"
  shows "validate_methods v = Inr (''get'' # rev (remdups (rev v)))
         \<and> distinct (''get'' # rev (remdups (rev v)))
         \<and> set (''get'' # rev (remdups (rev v))) = insert ''get'' (set v)"
proof -
  have sent: "''all'' \<notin> set v" "''none'' \<notin> set v"
    using assms(1) sentinels_not_methods by auto
  have ne: "v \<noteq> []" using assms(3) by auto
  have loop: "methods_loop CRUD_METHODS [] {} v = Inr (rev (remdups (rev v)))"
    using methods_loop_valid[OF assms(1) sent, of "[]"] by simp
  have "validate_methods v = Inr (''get'' # rev (remdups (rev v)))"
    using sent ne loop assms(2,3) by (simp add: validate_methods_def)
  moreover have "distinct (''get'' # rev (remdups (rev v)))"
    using assms(2) by simp
  ultimately show ?thesis by simp
qed

theorem validate_methods_inserts_get_witness:
  "validate_methods [''list'', ''delete_by_id'', ''list'', ''get_or_raise'']
     = Inr [''get'', ''list'', ''delete_by_id'', ''get_or_raise'']"
  using validate_methods_inserts_get[of "[''list'', ''delete_by_id'', ''list'', ''get_or_raise'']"]
  by (simp add: CRUD_METHODS_def)

text \<open>
  Claim C10. The sentinel \<open>none\<close> dominates: a token list in which \<open>none\<close> occurs
  anywhere is accepted and normalises to the empty list, whatever else it contains.
\<close>

theorem validate_methods_none_dominates:
  "''none'' \<in> set v \<Longrightarrow> validate_methods v = Inr []"
  by (auto simp: validate_methods_def)

theorem validate_methods_none_dominates_witness:
  "validate_methods [''all'', ''get'', ''none'', ''list''] = Inr []"
  using validate_methods_none_dominates[of "[''all'', ''get'', ''none'', ''list'']"]
  by simp

section \<open>The decision function\<close>

text \<open>
  Claim C2. \<open>classify_file\<close> returns the decision and the reason code of the five-row
  table: a path that does not exist is written with reason \<open>create\<close>, whatever the
  overwrite flag; an existing path without overwrite is skipped with
  \<open>exists-no-overwrite\<close>; with overwrite, an existing unreadable path and an existing
  path whose content differs are written with \<open>overwrite\<close>, and an existing path whose
  content is the proposed content is skipped with \<open>up-to-date\<close>.
\<close>

theorem classify_file_table:
  "(fs p = None \<longrightarrow>
      classify_file fs p proposed ov
        = \<lparr>path = p, exists = False, would_write = True, overwrite = ov,
           reason = Some ''create''\<rparr>)
   \<and> (fs p \<noteq> None \<longrightarrow>
      classify_file fs p proposed False
        = \<lparr>path = p, exists = True, would_write = False, overwrite = False,
           reason = Some ''exists-no-overwrite''\<rparr>)
   \<and> (fs p = Some Unreadable \<longrightarrow>
      classify_file fs p proposed True
        = \<lparr>path = p, exists = True, would_write = True, overwrite = True,
           reason = Some ''overwrite''\<rparr>)
   \<and> (fs p = Some (Text current) \<and> current \<noteq> proposed \<longrightarrow>
      classify_file fs p proposed True
        = \<lparr>path = p, exists = True, would_write = True, overwrite = True,
           reason = Some ''overwrite''\<rparr>)
   \<and> (fs p = Some (Text proposed) \<longrightarrow>
      classify_file fs p proposed True
        = \<lparr>path = p, exists = True, would_write = False, overwrite = True,
           reason = Some ''up-to-date''\<rparr>)"
  by (auto simp: classify_file_def)

theorem classify_file_table_witness:
  "classify_file Map.empty ''a.py'' ''new'' True
     = \<lparr>path = ''a.py'', exists = False, would_write = True, overwrite = True,
        reason = Some ''create''\<rparr>
   \<and> classify_file (Map.empty(''a.py'' \<mapsto> Text ''old'')) ''a.py'' ''new'' False
     = \<lparr>path = ''a.py'', exists = True, would_write = False, overwrite = False,
        reason = Some ''exists-no-overwrite''\<rparr>
   \<and> classify_file (Map.empty(''a.py'' \<mapsto> Unreadable)) ''a.py'' ''new'' True
     = \<lparr>path = ''a.py'', exists = True, would_write = True, overwrite = True,
        reason = Some ''overwrite''\<rparr>
   \<and> classify_file (Map.empty(''a.py'' \<mapsto> Text ''old'')) ''a.py'' ''new'' True
     = \<lparr>path = ''a.py'', exists = True, would_write = True, overwrite = True,
        reason = Some ''overwrite''\<rparr>
   \<and> classify_file (Map.empty(''a.py'' \<mapsto> Text ''new'')) ''a.py'' ''new'' True
     = \<lparr>path = ''a.py'', exists = True, would_write = False, overwrite = True,
        reason = Some ''up-to-date''\<rparr>"
  using classify_file_table[of Map.empty "''a.py''" "''new''" True]
    classify_file_table[of "Map.empty(''a.py'' \<mapsto> Text ''old'')" "''a.py''" "''new''" False
       "''old''"]
    classify_file_table[of "Map.empty(''a.py'' \<mapsto> Unreadable)" "''a.py''" "''new''" True]
    classify_file_table[of "Map.empty(''a.py'' \<mapsto> Text ''new'')" "''a.py''" "''new''" True]
  by simp

section \<open>The import locator\<close>

text \<open>A locator with a separator is rejected exactly when the text before the first
  separator or the text after it is empty.\<close>

lemma validate_import_path_with_separator:
  assumes "v = md @ CHR '':'' # cls_name" and "CHR '':'' \<notin> set md"
  shows "validate_import_path v
         = (if md = [] \<or> cls_name = [] then Inl (ValueError ERR_IMPORT_PATH_CLASS) else Inr v)"
proof -
  have "takeWhile (\<lambda>c. c \<noteq> CHR '':'') (md @ CHR '':'' # cls_name) = md"
    using assms(2) by (induction md) auto
  moreover have "dropWhile (\<lambda>c. c \<noteq> CHR '':'') (md @ CHR '':'' # cls_name)
      = CHR '':'' # cls_name"
    using assms(2) by (induction md) auto
  ultimately show ?thesis
    using assms(1) by (simp add: validate_import_path_def split_colon_def)
qed

text \<open>
  Claim C8. A locator without separator must be rejected for an ordinary explicit
  declaration. The validator does not: it sees the locator only, not the declaration's
  name, and accepts every locator without separator. Here the declaration named
  \<open>User\<close> (not a wildcard name) with the bare namespace \<open>app.models\<close> as locator is
  constructed without error; generation in combined mode then stops with the
  \<open>IndexError\<close> of \<open>split(":", 1)[1]\<close>.
\<close>

theorem validate_import_path_accepts_bare_namespace:
  "validate_import_path ''app.models'' = Inr ''app.models''
   \<and> is_wildcard \<lparr>name = ''User'', import_path = ''app.models'', id_field = ''id'',
              id_type = ''int'', methods = [''get''], personalize_methods = []\<rparr> = False
   \<and> ModelConfig_init ''User'' ''app.models'' ''id'' ''int'' [''get''] []
       = Inr \<lparr>name = ''User'', import_path = ''app.models'', id_field = ''id'',
              id_type = ''int'', methods = [''get''], personalize_methods = []\<rparr>
   \<and> snd (generate_from_config bare_namespace_cfg ''.'' False sample_env
            sample_importable empty_disk)
       = Inl (IndexError ''list index out of range'')"
  by code_simp

section \<open>The models field of the configuration document\<close>

text \<open>
  Claim C7, as amended. For a document whose \<open>generation.mode\<close> is absent or a string,
  \<open>load_config\<close> treats the \<open>models\<close> entry as follows: a non-empty list goes to schema
  validation unchanged, and discovery is not switched on; a string that is \<open>all\<close> after
  stripping and lower-casing replaces the list by the empty list and switches
  discovery on in the validated configuration; a string that is \<open>none\<close> fails with
  \<open>ERR_MODELS_NONE\<close>; the empty list fails with \<open>ERR_MODELS_EMPTY\<close>; every other
  string fails with \<open>ERR_MODELS_INVALID_VALUE\<close>; and a value that is neither null, a
  string nor a list (a boolean, a number, a mapping) goes to schema validation
  unchanged, so that its rejection there is reported as \<open>ERR_INVALID_CONFIGURATION\<close>.
\<close>

theorem load_config_models_field:
  assumes "dict_get data ''generation'' = Inr g"
    and "dict_get (if truthy g then g else YMap []) ''mode'' = Inr md"
    and "(if truthy md then md else YStr ''standalone'') = YStr s"
    and "dict_get data ''models'' = Inr mf"
  shows "(mf = YList (x # xs) \<longrightarrow>
            load_config V p (Some data)
              = (case V data of
                   Inl e \<Rightarrow> Inl (ValueError (''invalid configuration: '' @ e))
                 | Inr cfg \<Rightarrow> Inr cfg))
       \<and> (mf = YStr t \<and> lower (strip t) = ''all'' \<longrightarrow>
            load_config V p (Some data)
              = (case V (dict_set data ''models'' (YList [])) of
                   Inl e \<Rightarrow> Inl (ValueError (''invalid configuration: '' @ e))
                 | Inr cfg \<Rightarrow>
                     if models_dir cfg = None \<and> models_package cfg = None
                     then Inr (cfg\<lparr>discover_all := True, models_dir := Some ''app/models'',
                                   models_package := Some ''app.models''\<rparr>)
                     else Inr (cfg\<lparr>discover_all := True\<rparr>)))
       \<and> (mf = YStr t \<and> lower (strip t) = ''none'' \<longrightarrow>
            load_config V p (Some data) = Inl (ValueError ERR_MODELS_NONE))
       \<and> (mf = YList [] \<longrightarrow>
            load_config V p (Some data) = Inl (ValueError ERR_MODELS_EMPTY))
       \<and> (mf = YStr t \<and> lower (strip t) \<noteq> ''all'' \<and> lower (strip t) \<noteq> ''none'' \<longrightarrow>
            load_config V p (Some data) = Inl (ValueError ERR_MODELS_INVALID_VALUE))
       \<and> (mf = YBool b \<or> mf = YInt i \<or> mf = YMap kvs \<longrightarrow>
            load_config V p (Some data)
              = (case V data of
                   Inl e \<Rightarrow> Inl (ValueError (''invalid configuration: '' @ e))
                 | Inr cfg \<Rightarrow> Inr cfg))"
  using assms
  by (auto simp: load_config_def validate_and_finish_def ERR_INVALID_CONFIGURATION_def
      Let_def split: sum.splits)

lemma load_config_sample_hyps:
  "dict_get (doc_with_models mf) ''generation'' = Inr YNull"
  "dict_get (if truthy YNull then YNull else YMap []) ''mode'' = Inr YNull"
  "(if truthy YNull then YNull else YStr ''standalone'') = YStr ''standalone''"
  "dict_get (doc_with_models mf) ''models'' = Inr mf"
  by (simp_all add: dict_get_def doc_with_models_def)

lemma lower_strip_samples:
  "lower (strip '' All '') = ''all''" "lower (strip ''None'') = ''none''"
  "lower (strip ''maybe'') = ''maybe''"
  by code_simp+

theorem load_config_models_field_witness:
  "load_config schema_stub ''genrepo.yaml'' (Some (doc_with_models (YList [YMap []])))
     = Inr sample_cfg
   \<and> load_config schema_stub ''genrepo.yaml'' (Some (doc_with_models (YStr '' All '')))
     = Inr (sample_cfg\<lparr>models := [], discover_all := True, models_dir := Some ''app/models'',
                       models_package := Some ''app.models''\<rparr>)
   \<and> load_config schema_stub ''genrepo.yaml'' (Some (doc_with_models (YStr ''None'')))
     = Inl (ValueError ERR_MODELS_NONE)
   \<and> load_config schema_stub ''genrepo.yaml'' (Some (doc_with_models (YList [])))
     = Inl (ValueError ERR_MODELS_EMPTY)
   \<and> load_config schema_stub ''genrepo.yaml'' (Some (doc_with_models (YStr ''maybe'')))
     = Inl (ValueError ERR_MODELS_INVALID_VALUE)
   \<and> load_config schema_stub ''genrepo.yaml'' (Some (doc_with_models (YBool True)))
     = Inl (ValueError ''invalid configuration: models: Input should be a valid list'')"
  using load_config_models_field[OF load_config_sample_hyps,
      where x = "YMap []" and xs = "[]" and V = schema_stub and p = "''genrepo.yaml''"]
    load_config_models_field[OF load_config_sample_hyps,
      where t = "'' All ''" and V = schema_stub and p = "''genrepo.yaml''"]
    load_config_models_field[OF load_config_sample_hyps,
      where t = "''None''" and V = schema_stub and p = "''genrepo.yaml''"]
    load_config_models_field[OF load_config_sample_hyps,
      where mf = "YList []" and V = schema_stub and p = "''genrepo.yaml''"]
    load_config_models_field[OF load_config_sample_hyps,
      where t = "''maybe''" and V = schema_stub and p = "''genrepo.yaml''"]
    load_config_models_field[OF load_config_sample_hyps,
      where b = True and V = schema_stub and p = "''genrepo.yaml''"]
    lower_strip_samples
  by (simp add: schema_stub_def dict_get_def dict_set_def doc_with_models_def sample_cfg_def)

text \<open>
  The claim as stated fails for a scalar that is not a string: \<open>models: 5\<close> is not
  refused with \<open>ERR_MODELS_INVALID_VALUE\<close>; it reaches schema validation, whose
  rejection is reported as an invalid configuration.
\<close>

theorem load_config_models_field_counterexample:
  "load_config schema_stub ''genrepo.yaml'' (Some (doc_with_models (YInt 5)))
     = Inl (ValueError ''invalid configuration: models: Input should be a valid list'')
   \<and> load_config schema_stub ''genrepo.yaml'' (Some (doc_with_models (YInt 5)))
     \<noteq> Inl (ValueError ERR_MODELS_INVALID_VALUE)"
  by code_simp

text \<open>Whatever schema validation answers, a number, a boolean or a mapping as
  \<open>models\<close> never yields \<open>ERR_MODELS_INVALID_VALUE\<close>.\<close>

lemma load_config_non_string_scalar:
  assumes "dict_get data ''generation'' = Inr g"
    and "dict_get (if truthy g then g else YMap []) ''mode'' = Inr md"
    and "(if truthy md then md else YStr ''standalone'') = YStr s"
    and "dict_get data ''models'' = Inr mf"
    and "mf = YBool b \<or> mf = YInt i \<or> mf = YMap kvs"
  shows "load_config V p (Some data) \<noteq> Inl (ValueError ERR_MODELS_INVALID_VALUE)"
proof -
  have "''invalid configuration: '' @ e \<noteq> ERR_MODELS_INVALID_VALUE" for e
    by (simp add: ERR_MODELS_INVALID_VALUE_def)
  then show ?thesis
    using assms
    by (auto simp: load_config_def validate_and_finish_def ERR_INVALID_CONFIGURATION_def
        Let_def split: sum.splits)
qed

section \<open>Model resolution\<close>

lemma separate_models:
  assumes "\<forall>x\<in>set pre. \<not> is_wildcard x"
  shows "fst (separate xs (pre @ xs) ebn wc) = pre @ filter (\<lambda>m. \<not> is_wildcard m) xs"
  using assms
proof (induction xs arbitrary: pre ebn wc)
  case Nil
  then show ?case by simp
next
  case (Cons m xs)
  show ?case
  proof (cases "is_wildcard m")
    case True
    then have "m \<notin> set pre" using Cons.prems by auto
    then have "remove1 m (pre @ m # xs) = pre @ xs" by (simp add: remove1_append)
    then show ?thesis using True Cons.IH[OF Cons.prems] by simp
  next
    case False
    then have "\<forall>x\<in>set (pre @ [m]). \<not> is_wildcard x" using Cons.prems by auto
    from Cons.IH[OF this] show ?thesis using False by simp
  qed
qed

lemma separate_names:
  "dom (fst (snd (separate xs ms ebn wc))) = dom ebn \<union> name ` {m \<in> set xs. \<not> is_wildcard m}"
  by (induction xs arbitrary: ms ebn wc) auto

lemma separate_wildcard:
  "(snd (snd (separate xs ms ebn wc)) \<noteq> None) = (wc \<noteq> None \<or> (\<exists>m\<in>set xs. is_wildcard m))"
  by (induction xs arbitrary: ms ebn wc) auto

lemma ModelConfig_init_fields:
  "ModelConfig_init nm ip idf idt ms ps = Inr m \<Longrightarrow>
     name m = nm \<and> import_path m = ip \<and> id_field m = idf \<and> id_type m = idt"
  by (auto simp: ModelConfig_init_def Let_def validate_name_def validate_import_path_def
      split: sum.splits list.splits if_splits)

lemma discover_loop_result:
  "discover_loop pkg ebn dflt fs acc = Inr r \<Longrightarrow>
     \<exists>ds. r = acc @ ds
        \<and> map name ds = map (\<lambda>f. to_pascal (stem f))
            (filter (\<lambda>f. \<not> startswith f ''__'' \<and> ebn (to_pascal (stem f)) = None) fs)"
proof (induction fs arbitrary: acc)
  case Nil
  then show ?case by simp
next
  case (Cons f fs)
  show ?case
  proof (cases "startswith f ''__'' \<or> ebn (to_pascal (stem f)) \<noteq> None")
    case True
    then have "discover_loop pkg ebn dflt fs acc = Inr r"
      using Cons.prems by (auto simp: Let_def split: if_splits)
    from Cons.IH[OF this] show ?thesis using True by auto
  next
    case False
    then obtain m where m: "ModelConfig_init (to_pascal (stem f))
          (pkg @ ''.'' @ stem f @ '':'' @ to_pascal (stem f)) (id_field dflt) (id_type dflt)
          (methods dflt) (personalize_methods dflt) = Inr m"
      and r: "discover_loop pkg ebn dflt fs (acc @ [m]) = Inr r"
      using Cons.prems by (auto simp: Let_def split: sum.splits if_splits)
    from Cons.IH[OF r] obtain ds where "r = (acc @ [m]) @ ds"
      "map name ds = map (\<lambda>f. to_pascal (stem f))
            (filter (\<lambda>f. \<not> startswith f ''__'' \<and> ebn (to_pascal (stem f)) = None) fs)"
      by blast
    then show ?thesis
      using False ModelConfig_init_fields[OF m] by (intro exI[of _ "m # ds"]) auto
  qed
qed

lemma sort_glob_listing:
  "mset l' = mset l \<Longrightarrow> sort (glob_py l') = sort (glob_py l)"
  by (simp add: glob_py_def properties_for_sort)

text \<open>
  Claim C9. When discovery is enabled (by the configuration or by a wildcard entry)
  and resolution succeeds, the resolved list is the explicit declarations in
  configuration order followed by the discovered ones; the discovered names are the
  PascalCase forms of the stems of the \<open>*.py\<close> names of the discovery directory, taken
  in sorted order, without the names that start with \<open>__\<close> and without those whose
  class name an explicit declaration claims. The result does not depend on the order
  in which the directory lists its names.
\<close>

theorem resolve_discovery_order:
  assumes "discover_all cfg \<or> (\<exists>m\<in>set (models cfg). is_wildcard m)"
    and "resolve cfg project_root listdir importable = Inr ms"
  shows "(\<exists>discovered.
            ms = filter (\<lambda>m. \<not> is_wildcard m) (models cfg) @ discovered
          \<and> map name discovered
              = map (\<lambda>f. to_pascal (stem f))
                  (filter (\<lambda>f. \<not> startswith f ''__''
                        \<and> to_pascal (stem f) \<notin> name ` {m \<in> set (models cfg). \<not> is_wildcard m})
                     (sort (glob_py (listdir (case models_dir cfg of
                                                Some d \<Rightarrow> d
                                              | None \<Rightarrow> joinpath project_root ''app/models''))))))
       \<and> (\<forall>listdir'. (\<forall>d. mset (listdir' d) = mset (listdir d)) \<longrightarrow>
             resolve cfg project_root listdir' importable = Inr ms)"
proof -
  obtain ms0 ebn wc where sep: "separate (models cfg) (models cfg) Map.empty None = (ms0, ebn, wc)"
    by (cases "separate (models cfg) (models cfg) Map.empty None") auto
  have ms0: "ms0 = filter (\<lambda>m. \<not> is_wildcard m) (models cfg)"
    using separate_models[of "[]" "models cfg" Map.empty None] sep by simp
  have ebn: "dom ebn = name ` {m \<in> set (models cfg). \<not> is_wildcard m}"
    using separate_names[of "models cfg" "models cfg" Map.empty None] sep by simp
  have wc: "(wc \<noteq> None) = (\<exists>m\<in>set (models cfg). is_wildcard m)"
    using separate_wildcard[of "models cfg" "models cfg" Map.empty None] sep by simp
  have disc: "discover_all cfg \<or> wc \<noteq> None" using assms(1) wc by simp
  have none_iff: "(ebn c = None) = (c \<notin> name ` {m \<in> set (models cfg). \<not> is_wildcard m})" for c
    using ebn by (metis domIff)
  obtain pkg dflt where loop: "\<And>l. resolve cfg project_root l importable
      = discover_loop pkg ebn dflt
          (sort (glob_py (l (case models_dir cfg of
                               Some d \<Rightarrow> d
                             | None \<Rightarrow> joinpath project_root ''app/models'')))) ms0"
    using disc sep by (auto simp: resolve_def Let_def)
  from discover_loop_result[OF assms(2)[unfolded loop]]
  have A: "\<exists>discovered.
            ms = filter (\<lambda>m. \<not> is_wildcard m) (models cfg) @ discovered
          \<and> map name discovered
              = map (\<lambda>f. to_pascal (stem f))
                  (filter (\<lambda>f. \<not> startswith f ''__''
                        \<and> to_pascal (stem f) \<notin> name ` {m \<in> set (models cfg). \<not> is_wildcard m})
                     (sort (glob_py (listdir (case models_dir cfg of
                                                Some d \<Rightarrow> d
                                              | None \<Rightarrow> joinpath project_root ''app/models'')))))"
    unfolding none_iff ms0 .
  have B: "resolve cfg project_root listdir' importable = Inr ms"
    if "\<forall>d. mset (listdir' d) = mset (listdir d)" for listdir'
    using that assms(2) sort_glob_listing[of "listdir' d" "listdir d" for d]
    by (simp add: loop)
  show ?thesis using A B by blast
qed

lemma resolve_discovery_sample:
  "resolve discovery_cfg ''.'' sample_listdir sample_importable
   = Inr [sample_user,
          \<lparr>name = ''Bar'', import_path = ''app.models.bar:Bar'', id_field = ''id'',
            id_type = ''int'', methods = CRUD_METHODS, personalize_methods = []\<rparr>,
          \<lparr>name = ''Foo'', import_path = ''app.models.foo:Foo'', id_field = ''id'',
            id_type = ''int'', methods = CRUD_METHODS, personalize_methods = []\<rparr>]"
  by code_simp

lemma resolve_discovery_sample_names:
  "map (\<lambda>f. to_pascal (stem f))
     (filter (\<lambda>f. \<not> startswith f ''__''
           \<and> to_pascal (stem f) \<notin> name ` {m \<in> set (models discovery_cfg). \<not> is_wildcard m})
        (sort (glob_py (sample_listdir (case models_dir discovery_cfg of
                                          Some d \<Rightarrow> d
                                        | None \<Rightarrow> joinpath ''.'' ''app/models'')))))
   = [''Bar'', ''Foo'']"
  "filter (\<lambda>m. \<not> is_wildcard m) (models discovery_cfg) = [sample_user]"
  by code_simp+

theorem resolve_discovery_order_witness:
  "resolve discovery_cfg ''.'' sample_listdir sample_importable
     = Inr [sample_user,
          \<lparr>name = ''Bar'', import_path = ''app.models.bar:Bar'', id_field = ''id'',
            id_type = ''int'', methods = CRUD_METHODS, personalize_methods = []\<rparr>,
          \<lparr>name = ''Foo'', import_path = ''app.models.foo:Foo'', id_field = ''id'',
            id_type = ''int'', methods = CRUD_METHODS, personalize_methods = []\<rparr>]
   \<and> (\<exists>discovered.
         [sample_user,
          \<lparr>name = ''Bar'', import_path = ''app.models.bar:Bar'', id_field = ''id'',
            id_type = ''int'', methods = CRUD_METHODS, personalize_methods = []\<rparr>,
          \<lparr>name = ''Foo'', import_path = ''app.models.foo:Foo'', id_field = ''id'',
            id_type = ''int'', methods = CRUD_METHODS, personalize_methods = []\<rparr>]
           = [sample_user] @ discovered
       \<and> map name discovered = [''Bar'', ''Foo''])"
proof -
  have d: "discover_all discovery_cfg \<or> (\<exists>m\<in>set (models discovery_cfg). is_wildcard m)"
    by (simp add: discovery_cfg_def)
  show ?thesis
    using resolve_discovery_order[OF d resolve_discovery_sample]
      resolve_discovery_sample resolve_discovery_sample_names
    by simp
qed


section \<open>Unknown operation tokens in a declaration\<close>

lemma literal_errors_member:
  assumes "i < length ms" and "ms ! i \<notin> set CrudMethod"
  shows "Literal_error ''methods'' i (ms ! i) \<in> set (literal_errors ms)"
proof -
  have "(i, ms ! i) \<in> set (enumerate 0 ms)"
    using assms(1) by (simp add: in_set_enumerate_eq)
  then show ?thesis
    using assms(2) unfolding literal_errors_def by force
qed

lemma literal_errors_shape:
  "x \<in> set (literal_errors ms) \<Longrightarrow> \<exists>i m. x = Literal_error ''methods'' i m"
  unfolding literal_errors_def by (auto split: if_splits)

lemma literal_errors_none:
  assumes "literal_errors ms = []"
  shows "set ms \<subseteq> set CrudMethod"
proof
  fix m assume "m \<in> set ms"
  then obtain i where i: "i < length ms" "ms ! i = m" by (auto simp: in_set_conv_nth)
  show "m \<in> set CrudMethod"
  proof (rule ccontr)
    assume "m \<notin> set CrudMethod"
    then have "Literal_error ''methods'' i m \<in> set (literal_errors ms)"
      using literal_errors_member[of i ms] i by simp
    then show False using assms by simp
  qed
qed

lemma methods_loop_literals:
  "set v \<subseteq> set CrudMethod \<Longrightarrow> \<exists>r. methods_loop CRUD_METHODS result seen v = Inr r"
proof (induction v arbitrary: result seen)
  case Nil
  then show ?case by simp
next
  case (Cons m v)
  have "m = ''all'' \<or> m = ''none'' \<or> m \<in> set CRUD_METHODS"
    using Cons.prems by (auto simp: CrudMethod_def CRUD_METHODS_def)
  moreover have "set v \<subseteq> set CrudMethod" using Cons.prems by simp
  ultimately show ?case using Cons.IH by auto
qed

lemma validate_methods_literals:
  assumes "set v \<subseteq> set CrudMethod"
  shows "\<exists>r. validate_methods v = Inr r"
proof -
  obtain r where r: "methods_loop CRUD_METHODS (if ''all'' \<in> set v then CRUD_METHODS else [])
      (if ''all'' \<in> set v then set CRUD_METHODS else {}) v = Inr r"
    using methods_loop_literals[OF assms] by blast
  show ?thesis
    unfolding validate_methods_def Let_def r by simp
qed

text \<open>Whatever the declaration, its validation error never carries a
  \<open>ValueError\<close> of \<open>validate_methods\<close>: the check of the tokens at lines 109 and 110
  cannot fail once the \<open>Literal\<close> check has passed.\<close>

lemma ModelConfig_init_no_methods_value_error:
  assumes "ModelConfig_init nm ip idf idt ms ps = Inl (ValidationError items)"
  shows "Value_error ''methods'' msg \<notin> set items"
proof -
  have items: "items = field_errors ''name'' (validate_name nm)
      @ field_errors ''import_path'' (validate_import_path ip)
      @ (if literal_errors ms = [] then field_errors ''methods'' (validate_methods ms)
         else literal_errors ms)"
    using assms
    by (auto simp: ModelConfig_init_def Let_def split: sum.splits if_splits)
  have a: "Value_error ''methods'' msg \<notin> set (field_errors ''name'' r)" for r :: "error + string"
    by (auto simp: field_errors_def split: sum.splits error.splits)
  have b: "Value_error ''methods'' msg \<notin> set (field_errors ''import_path'' r)"
    for r :: "error + string"
    by (auto simp: field_errors_def split: sum.splits error.splits)
  have c: "Value_error ''methods'' msg
      \<notin> set (if literal_errors ms = [] then field_errors ''methods'' (validate_methods ms)
              else literal_errors ms)"
  proof (cases "literal_errors ms = []")
    case True
    then obtain r where "validate_methods ms = Inr r"
      using validate_methods_literals[OF literal_errors_none] by blast
    then show ?thesis using True by (simp add: field_errors_def)
  next
    case False
    then show ?thesis using literal_errors_shape[of "Value_error ''methods'' msg" ms] by auto
  qed
  show ?thesis using a b c by (simp add: items)
qed

text \<open>
  Claim C6, as amended. A model declaration whose \<open>methods\<close> hold, at some position, a
  token that is neither in the vocabulary nor a sentinel fails validation: the
  \<open>Literal\<close> check of \<open>list[CrudMethod]\<close> refuses it with a validation error that holds
  a literal error naming that position and that token. \<open>validate_methods\<close> does not
  run on it, so no error with the message \<open>invalid method: <token>\<close>, nor any other
  \<open>ValueError\<close> of that validator, is part of the failure.
\<close>

theorem unknown_method_refused_by_literal_check:
  assumes "i < length ms"
    and "ms ! i \<notin> set CRUD_METHODS" and "ms ! i \<noteq> ''all''" and "ms ! i \<noteq> ''none''"
  shows "\<exists>items. ModelConfig_init nm ip idf idt ms ps = Inl (ValidationError items)
           \<and> Literal_error ''methods'' i (ms ! i) \<in> set items
           \<and> (\<forall>msg. Value_error ''methods'' msg \<notin> set items)"
proof -
  have nl: "ms ! i \<notin> set CrudMethod"
    using assms(2-4) by (auto simp: CrudMethod_def CRUD_METHODS_def)
  have lit: "Literal_error ''methods'' i (ms ! i) \<in> set (literal_errors ms)"
    using literal_errors_member[OF assms(1) nl] .
  then have ne: "literal_errors ms \<noteq> []" by auto
  define items where "items = field_errors ''name'' (validate_name nm)
      @ field_errors ''import_path'' (validate_import_path ip) @ literal_errors ms"
  have "items \<noteq> []" using ne by (simp add: items_def)
  then have r: "ModelConfig_init nm ip idf idt ms ps = Inl (ValidationError items)"
    using ne by (auto simp: ModelConfig_init_def Let_def items_def split: sum.splits)
  have "Literal_error ''methods'' i (ms ! i) \<in> set items" using lit by (simp add: items_def)
  moreover have "\<forall>msg. Value_error ''methods'' msg \<notin> set items"
    using ModelConfig_init_no_methods_value_error[OF r] by blast
  ultimately show ?thesis using r by blast
qed

theorem unknown_method_refused_by_literal_check_witness:
  "ModelConfig_init ''User'' ''app.models.user:User'' ''id'' ''int'' [''get'', ''bogus''] []
     = Inl (ValidationError [Literal_error ''methods'' 1 ''bogus''])"
proof -
  have e: "ModelConfig_init ''User'' ''app.models.user:User'' ''id'' ''int''
             [''get'', ''bogus''] []
         = Inl (ValidationError [Literal_error ''methods'' 1 ''bogus''])"
    by code_simp
  show ?thesis
    using unknown_method_refused_by_literal_check[of 1 "[''get'', ''bogus'']" "''User''"
        "''app.models.user:User''" "''id''" "''int''" "[]"] e
    by (simp add: CRUD_METHODS_def)
qed

text \<open>
  The claim as stated fails: the declaration with \<open>methods: [bogus]\<close> is refused, but
  not with the error of \<open>validate_methods\<close> and its message \<open>invalid method: bogus\<close>.
\<close>

theorem unknown_method_refused_by_literal_check_counterexample:
  "ModelConfig_init ''User'' ''app.models.user:User'' ''id'' ''int'' [''bogus''] []
     = Inl (ValidationError [Literal_error ''methods'' 0 ''bogus''])
   \<and> ModelConfig_init ''User'' ''app.models.user:User'' ''id'' ''int'' [''bogus''] []
     \<noteq> Inl (ValidationError [Value_error ''methods'' ''invalid method: bogus''])"
  by code_simp

section \<open>Planning against writing\<close>

text \<open>With overwrite allowed, \<open>write\<close> never skips; \<open>classify_file\<close> skips a target
  that already holds the proposed text.\<close>

lemma write_file_overwrite_never_skips: "snd (write_file d p proposed True) \<noteq> Inr False"
  by (auto simp: write_file_def split: prod.splits option.splits sum.splits)

lemma classify_file_up_to_date_skips:
  "lookup d p = Some (Text proposed) \<Longrightarrow>
     would_write (classify_file (lookup d) p proposed True) = False"
  by (simp add: classify_file_def)

text \<open>
  Claim C1. The plan and the executor must agree on every path. They do not: in
  standalone mode under \<open>force\<close>, for a file that already holds the rendered text (the
  second of two runs), \<open>plan_from_config\<close> reports the path with \<open>would_write\<close> false and
  reason \<open>up-to-date\<close>, and \<open>generate_from_config\<close>, on the same disk with the same
  arguments, writes the file and returns its path.
\<close>

theorem plan_skips_what_generate_writes:
  "plan_from_config sample_cfg ''.'' True sample_env sample_importable generated_disk
     = Inr \<lparr>files = [\<lparr>path = ''/work/out/user_repository.py'', exists = True,
                        would_write = False, overwrite = True,
                        reason = Some ''up-to-date''\<rparr>]\<rparr>
   \<and> snd (generate_from_config sample_cfg ''.'' True sample_env sample_importable
            generated_disk)
     = Inr [''/work/out/user_repository.py'']"
  by code_simp

section \<open>Create once\<close>

text \<open>The write of a stub, with overwrite off, leaves an existing target and the
  whole disk as they are.\<close>

lemma write_file_keeps_existing:
  "lookup d p \<noteq> None \<Longrightarrow> write_file d p proposed False = (d, Inr False)"
  by (simp add: write_file_def)

text \<open>
  Claim C3. An existing stub must survive regeneration. It does not when the base
  file is the stub's file: with \<open>base_filename: user_repository.py\<close> and
  \<open>overwrite_base\<close>, the write of the base file replaces the hand-edited stub of model
  \<open>User\<close> before the stub loop skips it; and with
  \<open>base_filename: sub/../user_repository.py\<close>, which names the same file once
  \<open>sub\<close> exists, the stub is replaced even with \<open>overwrite_base\<close> off.
\<close>

theorem existing_stub_replaced_by_base_write:
  "lookup edited_disk ''/work/out/user_repository.py'' = Some (Text ''edited by hand'')
   \<and> lookup (fst (generate_from_config colliding_cfg ''.'' False sample_env
                     sample_importable edited_disk)) ''/work/out/user_repository.py''
     = Some (Text ''base_repository_sqlmodel_sync.j2 BaseRepository none'')
   \<and> overwrite_base (generation alias_cfg) = False
   \<and> lookup (fst (generate_from_config alias_cfg ''.'' False sample_env
                     sample_importable edited_disk)) ''/work/out/user_repository.py''
     = Some (Text ''base_repository_sqlmodel_sync.j2 BaseRepository none'')"
  by code_simp

end
